theory Spec2Isabelle
  imports Main "HOL-Library.Sublist"
begin

section \<open>h2cstartup.c: constants\<close>

text \<open>
  A shallow embedding of \<^verbatim>\<open>src/h2cstartup.c\<close>. C strings are \<^typ>\<open>string\<close>s without
  the terminating NUL (text files and arguments are taken to hold no NUL byte), an \<^verbatim>\<open>int\<close>
  is an \<^typ>\<open>int\<close> with the one place where a conversion can leave the 32-bit range made an
  explicit outcome, and every step on which the C standard gives the program no meaning
  (a write past a buffer, a null stream) is a value of \<open>undefined_behaviour\<close>.
\<close>

definition MAXLINELEN :: nat where
  "MAXLINELEN = 140"

definition IRQNAMELEN :: nat where
  "IRQNAMELEN = 32"

text \<open>\<^verbatim>\<open>enum error_ {ERR_NOFILE = 2, ERR_BADFORMAT, ERR_BADOPT}\<close>\<close>

definition ERR_NOFILE :: int where
  "ERR_NOFILE = 2"

definition ERR_BADFORMAT :: int where
  "ERR_BADFORMAT = 3"

definition ERR_BADOPT :: int where
  "ERR_BADOPT = 4"

datatype undefined_behaviour =
    Irqid_Overflow      \<comment> \<open>\<^verbatim>\<open>%s\<close> writes past \<^verbatim>\<open>char irqid[IRQNAMELEN]\<close>\<close>
  | Strip_Underflow     \<comment> \<open>\<^verbatim>\<open>irqid[strlen(irqid) - 4]\<close> with fewer than 4 characters\<close>
  | Int_Overflow        \<comment> \<open>\<^verbatim>\<open>%d\<close> reads a number that is no \<^verbatim>\<open>int\<close>\<close>
  | Table_Overflow      \<comment> \<open>\<^verbatim>\<open>strcpy\<close> to a row past the 512 rows of \<^verbatim>\<open>irqname\<close>\<close>
  | Ofname_Overflow     \<comment> \<open>\<^verbatim>\<open>strcat\<close> writes past \<^verbatim>\<open>char ofname[200]\<close>\<close>
  | Null_Stream         \<comment> \<open>\<^verbatim>\<open>fprintf\<close> on the null pointer \<^verbatim>\<open>fopen\<close> returned\<close>

section \<open>The C library, as far as the program uses it\<close>

definition isspace :: "char \<Rightarrow> bool" where
  "isspace c = (c = CHR '' '' \<or> c = CHR 0x09 \<or> c = CHR 0x0A \<or> c = CHR 0x0B
     \<or> c = CHR 0x0C \<or> c = CHR 0x0D)"

definition isdigit :: "char \<Rightarrow> bool" where
  "isdigit c = (48 \<le> (of_char c :: nat) \<and> (of_char c :: nat) \<le> 57)"

definition nonspace :: "char \<Rightarrow> bool" where
  "nonspace c = (if isspace c then False else True)"

text \<open>The directive \<^verbatim>\<open>%s\<close>: skip white space, then take the longest run of other
  characters. \<open>None\<close> is the input failure at the end of the string.\<close>

definition scan_s :: "string \<Rightarrow> (string \<times> string) option" where
  "scan_s inp =
     (let r = dropWhile isspace inp
      in if r = [] then None else Some (takeWhile nonspace r, dropWhile nonspace r))"

definition digits_val :: "string \<Rightarrow> int" where
  "digits_val ds = foldl (\<lambda>a c. 10 * a + (int (of_char c) - 48)) 0 ds"

text \<open>The directive \<^verbatim>\<open>%d\<close>: skip white space, an optional sign, then at least one
  decimal digit. The value is the mathematical one; the caller checks that it is an
  \<^verbatim>\<open>int\<close>.\<close>

definition scan_d :: "string \<Rightarrow> (int \<times> string) option" where
  "scan_d inp =
     (let r = dropWhile isspace inp;
          neg = (case r of [] \<Rightarrow> False | c # _ \<Rightarrow> c = CHR ''-'');
          r1 = (case r of [] \<Rightarrow> r
                | c # cs \<Rightarrow> if c = CHR ''-'' \<or> c = CHR ''+'' then cs else r);
          ds = takeWhile isdigit r1
      in if ds = [] then None
         else Some (if neg then - digits_val ds else digits_val ds, dropWhile isdigit r1))"

definition int_ok :: "int \<Rightarrow> bool" where
  "int_ok n = (- 2147483648 \<le> n \<and> n \<le> 2147483647)"

text \<open>\<^verbatim>\<open>strstr(hay, needle) != NULL\<close>\<close>

fun strstr :: "string \<Rightarrow> string \<Rightarrow> bool" where
  "strstr [] needle = (needle = [])"
| "strstr (c # cs) needle = (prefix needle (c # cs) \<or> strstr cs needle)"

text \<open>\<^verbatim>\<open>strchr(s, c) != NULL\<close>\<close>

definition strchr :: "string \<Rightarrow> char \<Rightarrow> bool" where
  "strchr s c = (c \<in> set s)"

text \<open>One call \<^verbatim>\<open>fgets(line, k + 1, in)\<close> on the unread rest of the file: at most \<open>k\<close>
  characters, ending after the first newline; the result is the line and what is left.\<close>

fun fgets :: "nat \<Rightarrow> string \<Rightarrow> string \<times> string" where
  "fgets k [] = ([], [])"
| "fgets k (c # cs) =
     (if k = 0 then ([], c # cs)
      else if c = CHR 0x0A then ([c], cs)
      else (case fgets (k - 1) cs of (l, r) \<Rightarrow> (c # l, r)))"

lemma fgets_rest_le: "length (snd (fgets k inp)) \<le> length inp"
  by (induction k inp rule: fgets.induct) (auto split: prod.splits)

lemma fgets_rest_less:
  "0 < k \<Longrightarrow> inp \<noteq> [] \<Longrightarrow> length (snd (fgets k inp)) < length inp"
proof (cases inp)
  case Nil
  assume "inp \<noteq> []"
  with Nil show ?thesis by simp
next
  case (Cons c cs)
  assume "0 < k"
  moreover have "length (snd (fgets (k - 1) cs)) \<le> length cs"
    by (rule fgets_rest_le)
  ultimately show ?thesis
    using Cons by (auto split: prod.splits)
qed

text \<open>The lines \<^verbatim>\<open>while (fgets(line, MAXLINELEN, in))\<close> sees, in order: \<^verbatim>\<open>fgets\<close> returns
  \<^verbatim>\<open>NULL\<close> once nothing is left.\<close>

function file_lines :: "string \<Rightarrow> string list" where
  "file_lines inp =
     (if inp = [] then []
      else fst (fgets (MAXLINELEN - 1) inp) # file_lines (snd (fgets (MAXLINELEN - 1) inp)))"
  by pat_completeness auto
termination
  by (relation "measure length") (auto simp: MAXLINELEN_def fgets_rest_less)

declare file_lines.simps [simp del]

section \<open>The header scanner (\<^verbatim>\<open>main\<close>, lines 171 to 198)\<close>

text \<open>Objects the program declares without an initial value, \<^verbatim>\<open>irqid\<close> and \<^verbatim>\<open>irqnum\<close> in
  the body of the scan loop and \<^verbatim>\<open>s\<close> in the body of the last loop, start each iteration
  with an indeterminate content. The model takes these contents as an input: for the scan
  loop by the number of the iteration, for \<^verbatim>\<open>s\<close> by the loop index.\<close>

record indeterminate =
  irqid_at :: "nat \<Rightarrow> string"
  irqnum_at :: "nat \<Rightarrow> int"
  s_at :: "nat \<Rightarrow> string"

text \<open>\<^verbatim>\<open>sscanf(line, "%s = %d", irqid, &irqnum)\<close> with \<^verbatim>\<open>irqid\<close> and \<^verbatim>\<open>irqnum\<close> holding \<open>id0\<close>
  and \<open>num0\<close> before the call: the value returned (\<^verbatim>\<open>EOF\<close> is \<open>-1\<close>) and the two objects
  after it. The token is written to \<^verbatim>\<open>irqid\<close> before the rest of the format is matched,
  so a token of \<open>IRQNAMELEN\<close> characters or more overflows the buffer whatever follows.\<close>

definition sscanf_irq ::
  "string \<Rightarrow> int \<Rightarrow> string \<Rightarrow> undefined_behaviour + (int \<times> string \<times> int)" where
  "sscanf_irq id0 num0 ln =
     (case scan_s ln of
        None \<Rightarrow> Inr (- 1, id0, num0)
      | Some (tok, r) \<Rightarrow>
          if IRQNAMELEN \<le> length tok then Inl Irqid_Overflow
          else (case dropWhile isspace r of
                  [] \<Rightarrow> Inr (1, tok, num0)
                | c # r1 \<Rightarrow>
                    if c = CHR ''='' then
                      (case scan_d r1 of
                         None \<Rightarrow> Inr (1, tok, num0)
                       | Some (n, _) \<Rightarrow> if int_ok n then Inr (2, tok, n) else Inl Int_Overflow)
                    else Inr (1, tok, num0)))"

text \<open>The scanner's variables: the flag \<^verbatim>\<open>irqdefs\<close>, \<^verbatim>\<open>maxirqn\<close>, the global table
  \<^verbatim>\<open>char irqname[512][IRQNAMELEN]\<close> (a slot whose first byte is 0 holds the empty string),
  and what has been written to \<^verbatim>\<open>stderr\<close>. The program indexes the table only with
  \<open>irqnum + 16\<close> for \<open>-14 \<le> irqnum < 496\<close> and with loop indices from 2 to \<open>maxirqn + 16\<close>,
  so every index lies in 2..511.\<close>

record scan_state =
  irqdefs :: bool
  maxirqn :: int
  irqname :: "nat \<Rightarrow> string"
  errout :: string

definition scan_init :: scan_state where
  "scan_init = \<lparr>irqdefs = False, maxirqn = - 15, irqname = (\<lambda>_. []), errout = []\<rparr>"

text \<open>Lines 186 to 192: the body run for a parsed line. The loop runs it for \<open>irqnum < 496\<close>
  only, so the row \<open>irqnum + 16\<close> written at line 190 is one of the 512 the table has.\<close>

definition scan_entry ::
  "string \<Rightarrow> string \<Rightarrow> int \<Rightarrow> scan_state \<Rightarrow> undefined_behaviour + scan_state" where
  "scan_entry ln irqid irqnum st =
     (let k = (if 0 \<le> irqnum then 1 else 4 :: nat)
      in if length irqid < k then Inl Strip_Underflow
         else
           (let name = take (length irqid - k) irqid;
                st1 = (if maxirqn st < irqnum then st\<lparr>maxirqn := irqnum\<rparr> else st)
            in if - 14 \<le> irqnum \<and> irqnum \<le> 512
               then (if 512 \<le> irqnum + 16 then Inl Table_Overflow
                     else Inr (st1\<lparr>irqname := (irqname st1)(nat (irqnum + 16) := name)\<rparr>))
               else Inr (st1\<lparr>errout := errout st1 @ ''error: '' @ ln @ ''\<newline>''\<rparr>)))"

text \<open>Lines 176 to 196: one iteration of the \<^verbatim>\<open>while\<close> loop. The flag returned is
  whether the iteration ends in \<^verbatim>\<open>break\<close>.\<close>

definition scan_line ::
  "string \<Rightarrow> int \<Rightarrow> string \<Rightarrow> scan_state \<Rightarrow> undefined_behaviour + (scan_state \<times> bool)" where
  "scan_line id0 num0 ln st =
     (let st1 = (if \<not> irqdefs st \<and> strstr ln ''_IRQn'' then st\<lparr>irqdefs := True\<rparr> else st)
      in if irqdefs st1 then
           (case sscanf_irq id0 num0 ln of
              Inl ub \<Rightarrow> Inl ub
            | Inr (cnt, irqid, irqnum) \<Rightarrow>
                if cnt = 2 \<and> irqnum < 496 then
                  (case scan_entry ln irqid irqnum st1 of
                     Inl ub \<Rightarrow> Inl ub
                   | Inr st2 \<Rightarrow> Inr (st2, False))
                else if strchr ln CHR ''}'' then Inr (st1, True)
                else Inr (st1, False))
         else Inr (st1, False))"

text \<open>The loop from its \<open>k\<close>-th iteration on, over the lines still to read.\<close>

fun scan_loop ::
  "indeterminate \<Rightarrow> nat \<Rightarrow> string list \<Rightarrow> scan_state \<Rightarrow> undefined_behaviour + scan_state" where
  "scan_loop ind k [] st = Inr st"
| "scan_loop ind k (ln # lns) st =
     (case scan_line (irqid_at ind k) (irqnum_at ind k) ln st of
        Inl ub \<Rightarrow> Inl ub
      | Inr (st1, brk) \<Rightarrow> if brk then Inr st1 else scan_loop ind (Suc k) lns st1)"

text \<open>The whole scan of a header's content.\<close>

definition scan_header :: "indeterminate \<Rightarrow> string \<Rightarrow> undefined_behaviour + scan_state" where
  "scan_header ind content = scan_loop ind 0 (file_lines content) scan_init"

text \<open>What a scan that stayed defined left in a table slot, and what it reported.\<close>

definition stored_name :: "undefined_behaviour + scan_state \<Rightarrow> nat \<Rightarrow> string option" where
  "stored_name r slot = (case r of Inl _ \<Rightarrow> None | Inr st \<Rightarrow> Some (irqname st slot))"

definition reported :: "undefined_behaviour + scan_state \<Rightarrow> string option" where
  "reported r = (case r of Inl _ \<Rightarrow> None | Inr st \<Rightarrow> Some (errout st))"

section \<open>Output formatting\<close>

definition dec_digit :: "nat \<Rightarrow> char" where
  "dec_digit d = ''0123456789'' ! d"

fun dec_nat :: "nat \<Rightarrow> string" where
  "dec_nat n = (if n < 10 then [dec_digit n] else dec_nat (n div 10) @ [dec_digit (n mod 10)])"

declare dec_nat.simps [simp del]

text \<open>The conversion \<^verbatim>\<open>%d\<close> of \<^verbatim>\<open>printf\<close>.\<close>

definition dec :: "int \<Rightarrow> string" where
  "dec n = (if n < 0 then CHR ''-'' # dec_nat (nat (- n)) else dec_nat (nat n))"

text \<open>A field width: \<^verbatim>\<open>%2d\<close> and \<^verbatim>\<open>%*d\<close> pad on the left, \<^verbatim>\<open>%-48s\<close> pads on the right;
  neither cuts a longer text.\<close>

definition pad_left :: "nat \<Rightarrow> string \<Rightarrow> string" where
  "pad_left w s = replicate (w - length s) CHR '' '' @ s"

definition pad_right :: "nat \<Rightarrow> string \<Rightarrow> string" where
  "pad_right w s = s @ replicate (w - length s) CHR '' ''"

section \<open>The program's tables and texts\<close>

definition helpstr :: string where
  "helpstr =
     ''Usage: h2cstartup <mcuname>.h\<newline>'' @
     ''produces C source file startup_<mcuname>.c containing the complete startup module\<newline>'' @
     ''with properly named exception vectors from MCU resource definition header file\<newline>'' @
     ''Options:\<newline>'' @
     ''-i        define names for unused NVIC interrupts\<newline>'' @
     ''-n <irqn> define table with <irqn> IRQ vectors up to <irqn>-1\<newline>'' @
     ''-s        use short standard names for core exception handlers\<newline>''"

text \<open>\<^verbatim>\<open>const char * const stdexcname[]\<close>: a null pointer is \<open>None\<close>.\<close>

definition stdexcname :: "string option list" where
  "stdexcname =
     [None, None,
      Some ''NMI_'',
      None,
      Some ''MemManage_'',
      None, None,
      None, None, None, None,
      Some ''SVC_'',
      Some ''DebugMon_'',
      None,
      None,
      None]"

text \<open>\<^verbatim>\<open>heading\<close> is a format with two \<^verbatim>\<open>%s\<close>; the function is the text it prints for
  the two arguments.\<close>

definition heading :: "string \<Rightarrow> string \<Rightarrow> string" where
  "heading ofname stripped_in_name =
     ''/*\<newline>'' @
     ''    '' @ ofname @ ''\<newline>'' @
     ''    gcc-arm compatible C startup module generated by h2cstartup from '' @
       stripped_in_name @ ''\<newline>'' @
     ''    gbm 10'' @ [CHR 0x27] @ ''2022\<newline>'' @
     ''    https://github.com/gbm-ii/Cortex-M_C_startup_gen \<newline>\<newline>''"

definition defhandler :: string where
  "defhandler =
     ''// the names below represent memory addresses, not real variables\<newline>'' @
     ''extern int\<newline>'' @
     ''   _sdata,  // start of .data section\<newline>'' @
     ''   _edata,  // end of data section\<newline>'' @
     ''   _sidata, // start of .data section image in Flash\<newline>'' @
     ''   _sbss,   // start of .bss section\<newline>'' @
     ''   _ebss,   // end of .bss section\<newline>'' @
     ''   _estack; // bottom of stack location\<newline>'' @
     ''\<newline>'' @
     ''// external functions called during startup\<newline>'' @
     ''void SystemInit(void);\<newline>'' @
     ''void __libc_init_array(void);\<newline>'' @
     ''int main(void);\<newline>'' @
     ''\<newline>'' @
     ''// code executed after core reset\<newline>'' @
     ''__attribute__ ((naked, noreturn)) void Reset_Handler(void)\<newline>'' @
     ''{\<newline>'' @
     ''   SystemInit();\<newline>'' @
     ''   // initialize .data section values from Flash\<newline>'' @
     ''   for (int *dptr = &_sdata, *sptr = &_sidata; dptr < &_edata;)\<newline>'' @
     ''       *dptr++ = *sptr++;\<newline>'' @
     ''   // zero the .bss section\<newline>'' @
     ''   for (int *dptr = &_sbss; dptr < &_ebss; dptr++)\<newline>'' @
     ''       *dptr = 0;\<newline>'' @
     ''   __libc_init_array();\<newline>'' @
     ''   main();\<newline>'' @
     ''   for (;;);\<newline>'' @
     ''}\<newline>'' @
     ''\<newline>'' @
     ''// the default empty handler for exceptions not handled by user\<newline>'' @
     ''static void Default_Handler(void)\<newline>'' @
     ''{\<newline>'' @
     ''    for (;;);\<newline>'' @
     ''}\<newline>\<newline>''"

definition vtstart :: string where
  "vtstart =
     ''\<newline>'' @
     ''struct vectable_ {\<newline>'' @
     ''    void *Initial_SP;\<newline>'' @
     ''    void (*Core_Exceptions[15])(void);\<newline>'' @
     ''    void (*NVIC_Interrupts[])(void);\<newline>'' @
     ''};\<newline>\<newline>'' @
     ''#define CX(a) [(a) - 1]\<newline>\<newline>'' @
     ''const struct vectable_ g_pfnvectors __attribute__((section('' @ [CHR 0x22] @
       ''.isr_vector'' @ [CHR 0x22] @ ''))) = {\<newline>'' @
     ''    .Initial_SP = &_estack,\<newline>'' @
     ''    .Core_Exceptions = {\<newline>'' @
     ''        CX( 1) = Reset_Handler,\<newline>''"

definition vtmid :: string where
  "vtmid =
     ''    },\<newline>'' @
     ''    .NVIC_Interrupts = {\<newline>''"

definition vtend :: string where
  "vtend =
     ''    }\<newline>};\<newline>''"

text \<open>\<^verbatim>\<open>get_stripped_name\<close>: what follows the last \<^verbatim>\<open>/\<close>; without one, what follows the last
  backslash; without either, the name.\<close>

definition after_last :: "char \<Rightarrow> string \<Rightarrow> string" where
  "after_last c name = rev (takeWhile (\<lambda>x. x \<noteq> c) (rev name))"

definition get_stripped_name :: "string \<Rightarrow> string" where
  "get_stripped_name name =
     (if strchr name CHR ''/'' then after_last CHR ''/'' name
      else if strchr name CHR 0x5C then after_last CHR 0x5C name
      else name)"

section \<open>The generator (\<^verbatim>\<open>main\<close>, lines 215 to 273)\<close>

record options =
  addirqs :: bool
  stdexcnames :: bool
  nirqns :: int

text \<open>Lines 215 to 217: \<^verbatim>\<open>nirqns\<close> after the adjustment.\<close>

definition adjust_nirqns :: "bool \<Rightarrow> int \<Rightarrow> int \<Rightarrow> int" where
  "adjust_nirqns addirqs_flag maxirqn0 nirqns0 =
     (let mcuirqns = maxirqn0 + 1
      in if nirqns0 > mcuirqns \<and> \<not> addirqs_flag then mcuirqns else nirqns0)"

text \<open>Lines 232 and 233: \<^verbatim>\<open>maxirqn\<close> as the three loops use it.\<close>

definition limit_maxirqn :: "int \<Rightarrow> int \<Rightarrow> int" where
  "limit_maxirqn nirqns1 maxirqn0 =
     (if nirqns1 \<noteq> - 1 \<and> maxirqn0 > nirqns1 - 1 then nirqns1 - 1 else maxirqn0)"

definition effective_maxirqn :: "options \<Rightarrow> int \<Rightarrow> int" where
  "effective_maxirqn opts maxirqn0 =
     limit_maxirqn (adjust_nirqns (addirqs opts) maxirqn0 (nirqns opts)) maxirqn0"

text \<open>\<^verbatim>\<open>fprintf(out, "%-48s__attribute__ ((weak, alias(\"Default_Handler\")));\n", proto)\<close>\<close>

definition weak_alias :: "string \<Rightarrow> string" where
  "weak_alias proto =
     pad_right 48 proto @ ''__attribute__ ((weak, alias('' @ [CHR 0x22] @ ''Default_Handler'' @
       [CHR 0x22] @ '')));\<newline>''"

text \<open>Lines 235 to 248: the indices at which the first loop prints a declaration, and the
  declaration printed there.\<close>

definition decl_slots :: "bool \<Rightarrow> (nat \<Rightarrow> string) \<Rightarrow> int \<Rightarrow> nat list" where
  "decl_slots addirqs_flag tab maxirqn1 =
     filter (\<lambda>i. tab i \<noteq> [] \<or> (16 \<le> i \<and> addirqs_flag)) [2 ..< nat (maxirqn1 + 17)]"

definition decl_at :: "bool \<Rightarrow> bool \<Rightarrow> (nat \<Rightarrow> string) \<Rightarrow> nat \<Rightarrow> string" where
  "decl_at std_flag addirqs_flag tab i =
     (if tab i \<noteq> [] then
        weak_alias (''void '' @
          (if std_flag \<and> i < 16 then (case stdexcname ! i of Some nm \<Rightarrow> nm | None \<Rightarrow> tab i)
           else tab i) @ ''Handler(void)'')
      else if 16 \<le> i \<and> addirqs_flag then
        weak_alias (''void IRQ'' @ dec (int i - 16) @ ''_IRQHandler(void)'')
      else [])"

text \<open>Lines 250 to 256: the core exception entries.\<close>

definition core_slots :: "(nat \<Rightarrow> string) \<Rightarrow> nat list" where
  "core_slots tab = filter (\<lambda>i. tab i \<noteq> []) [2 ..< 16]"

definition core_at :: "bool \<Rightarrow> (nat \<Rightarrow> string) \<Rightarrow> nat \<Rightarrow> string" where
  "core_at std_flag tab i =
     ''        CX('' @ pad_left 2 (dec (int i)) @ '') = '' @
       (if std_flag then (case stdexcname ! i of Some nm \<Rightarrow> nm | None \<Rightarrow> tab i) else tab i) @
       ''Handler'' @ (if i < 15 then '',\<newline>'' else ''\<newline>'')"

text \<open>Lines 258 to 272: the NVIC entries. \<open>s0\<close> is what \<^verbatim>\<open>char s[80]\<close> holds when the body
  is entered.\<close>

definition nvic_slots :: "bool \<Rightarrow> (nat \<Rightarrow> string) \<Rightarrow> int \<Rightarrow> nat list" where
  "nvic_slots addirqs_flag tab maxirqn1 =
     filter (\<lambda>i. tab i \<noteq> [] \<or> addirqs_flag) [16 ..< nat (maxirqn1 + 17)]"

definition nvic_at :: "bool \<Rightarrow> (nat \<Rightarrow> string) \<Rightarrow> int \<Rightarrow> string \<Rightarrow> nat \<Rightarrow> string" where
  "nvic_at addirqs_flag tab maxirqn1 s0 i =
     (let inw = (if maxirqn1 > 99 then 3 else 2 :: nat);
          s1 = (if tab i \<noteq> [] then
                  ''['' @ pad_left inw (dec (int i - 16)) @ ''] = '' @ tab i @ ''Handler''
                else if addirqs_flag then
                  ''['' @ pad_left inw (dec (int i - 16)) @ ''] = IRQ'' @ dec (int i - 16) @
                    ''_IRQHandler''
                else s0);
          s2 = (if int i < maxirqn1 + 16 then s1 @ '','' else s1)
      in ''        '' @ s2 @ ''\<newline>'')"

text \<open>Everything written to \<^verbatim>\<open>out\<close>.\<close>

definition generate ::
  "indeterminate \<Rightarrow> options \<Rightarrow> scan_state \<Rightarrow> string \<Rightarrow> string \<Rightarrow> string" where
  "generate ind opts st ofname stripped_in_name =
     (let mcuirqns = maxirqn st + 1;
          nirqns1 = adjust_nirqns (addirqs opts) (maxirqn st) (nirqns opts);
          maxirqn1 = limit_maxirqn nirqns1 (maxirqn st)
      in heading ofname stripped_in_name @
         (if stdexcnames opts then ''    Standard short core exception names.\<newline>'' else []) @
         (if nirqns1 > - 1 \<and> nirqns1 \<noteq> mcuirqns
          then ''    '' @ dec nirqns1 @ '' NVIC IRQ vectors (MCU defines '' @ dec mcuirqns @
                 '').\<newline>''
          else []) @
         (if addirqs opts then ''    Unused vector names defined.\<newline>'' else []) @
         ''*/\<newline>\<newline>'' @
         defhandler @
         concat (map (decl_at (stdexcnames opts) (addirqs opts) (irqname st))
                   (decl_slots (addirqs opts) (irqname st) maxirqn1)) @
         vtstart @
         concat (map (core_at (stdexcnames opts) (irqname st)) (core_slots (irqname st))) @
         vtmid @
         concat (map (\<lambda>i. nvic_at (addirqs opts) (irqname st) maxirqn1 (s_at ind i) i)
                   (nvic_slots (addirqs opts) (irqname st) maxirqn1)) @
         vtend)"

section \<open>Options and \<^verbatim>\<open>main\<close>\<close>

definition options_init :: options where
  "options_init = \<lparr>addirqs = False, stdexcnames = False, nirqns = - 1\<rparr>"

text \<open>\<^verbatim>\<open>s[k]\<close> for a C string: the byte after the last character is the terminating 0.\<close>

definition char_at :: "string \<Rightarrow> nat \<Rightarrow> char" where
  "char_at s k = (if k < length s then s ! k else CHR 0x00)"

text \<open>How a stretch of \<^verbatim>\<open>main\<close> ends: undefined, by \<^verbatim>\<open>return\<close> with an exit status after a
  message on \<^verbatim>\<open>stderr\<close>, or by going on.\<close>

datatype 'a flow =
    Undefined undefined_behaviour
  | Return int string
  | Continue 'a

text \<open>Lines 127 to 155: the option loop from \<^verbatim>\<open>carg\<close> on; it goes on with the options and the
  index of the first argument that is no option.\<close>

function parse_options :: "string list \<Rightarrow> nat \<Rightarrow> options \<Rightarrow> (options \<times> nat) flow" where
  "parse_options argv carg opts =
     (if carg < length argv \<and> char_at (argv ! carg) 0 = CHR ''-'' then
        (if char_at (argv ! carg) 1 = CHR ''n'' then
           (if carg + 1 \<ge> length argv then Return ERR_BADOPT ''missing -n argument\<newline>''
            else
              (case scan_d (argv ! (carg + 1)) of
                 None \<Rightarrow> Return ERR_BADOPT ''missing -n argument\<newline>''
               | Some (n, _) \<Rightarrow>
                   if int_ok n then
                     (if n < 0 \<or> n > 496 then Return ERR_BADOPT ''-n argument out of range\<newline>''
                      else parse_options argv (carg + 2) (opts\<lparr>nirqns := n\<rparr>))
                   else Undefined Int_Overflow))
         else if char_at (argv ! carg) 1 = CHR ''i'' then
           parse_options argv (carg + 1) (opts\<lparr>addirqs := True\<rparr>)
         else if char_at (argv ! carg) 1 = CHR ''s'' then
           parse_options argv (carg + 1) (opts\<lparr>stdexcnames := True\<rparr>)
         else Return ERR_BADOPT (''invalid option '' @ argv ! carg @ ''\<newline>''))
      else Continue (opts, carg))"
  by pat_completeness auto
termination
  by (relation "measure (\<lambda>(argv, carg, opts). length argv - carg)") auto

declare parse_options.simps [simp del]

text \<open>What the program can see of its environment: \<^verbatim>\<open>fopen(name, "r")\<close> gives the content
  of a file or fails, \<^verbatim>\<open>fopen(name, "w")\<close> succeeds or fails.\<close>

record world =
  readable :: "string \<Rightarrow> string option"
  creatable :: "string \<Rightarrow> bool"

text \<open>What a run leaves: the exit status, the two streams, and the file written.\<close>

record outcome =
  exit_code :: int
  stdout :: string
  stderr :: string
  outfile :: "(string \<times> string) option"

text \<open>Lines 200 to 275. \<open>in_null\<close> is the test \<^verbatim>\<open>in == NULL\<close> of line 207: whether the
  \<^verbatim>\<open>fopen\<close> of line 164 had failed (\<^verbatim>\<open>fclose\<close> leaves the pointer as it was). \<open>out_null\<close> is
  \<^verbatim>\<open>out == NULL\<close>, which no line tests; the first \<^verbatim>\<open>fprintf(out, ...)\<close> then has a null
  stream.\<close>

definition write_output ::
  "indeterminate \<Rightarrow> world \<Rightarrow> options \<Rightarrow> string \<Rightarrow> bool \<Rightarrow> scan_state
     \<Rightarrow> undefined_behaviour + outcome" where
  "write_output ind w opts in_name in_null st =
     (let stripped_in_name = get_stripped_name in_name
      in if length ''startup_'' + length stripped_in_name + 1 > 200 then Inl Ofname_Overflow
         else
           (let ofname = butlast (''startup_'' @ stripped_in_name) @ ''c'';
                out_null = (\<not> creatable w ofname)
            in if in_null then
                 Inr \<lparr>exit_code = ERR_NOFILE, stdout = [],
                      stderr = errout st @ ''cannot create file '' @ ofname @ ''\<newline>'',
                      outfile = None\<rparr>
               else if out_null then Inl Null_Stream
               else
                 Inr \<lparr>exit_code = 0, stdout = [], stderr = errout st,
                      outfile = Some (ofname, generate ind opts st ofname stripped_in_name)\<rparr>))"

definition main :: "indeterminate \<Rightarrow> world \<Rightarrow> string list \<Rightarrow> undefined_behaviour + outcome" where
  "main ind w argv =
     (if length argv < 2 then
        Inr \<lparr>exit_code = 0, stdout = helpstr, stderr = [], outfile = None\<rparr>
      else
        (case parse_options argv 1 options_init of
           Undefined ub \<Rightarrow> Inl ub
         | Return code msg \<Rightarrow> Inr \<lparr>exit_code = code, stdout = [], stderr = msg, outfile = None\<rparr>
         | Continue (opts, carg) \<Rightarrow>
             if carg \<ge> length argv then
               Inr \<lparr>exit_code = 1, stdout = [], stderr = ''file not specified\<newline>'',
                    outfile = None\<rparr>
             else
               (let in_name = argv ! carg
                in case readable w in_name of
                     None \<Rightarrow>
                       Inr \<lparr>exit_code = ERR_NOFILE, stdout = [],
                            stderr = in_name @ '' file not found\<newline>'', outfile = None\<rparr>
                   | Some content \<Rightarrow>
                       (case scan_header ind content of
                          Inl ub \<Rightarrow> Inl ub
                        | Inr st \<Rightarrow>
                            write_output ind w opts in_name (readable w in_name = None) st))))"

section \<open>Notions used to state the properties\<close>

text \<open>The four core exceptions with a standard short name, as the specification lists
  them: NMI (slot 2), MemManage (slot 4), SVC (slot 11) and DebugMon (slot 12); every other
  slot keeps the vendor's name.\<close>

definition short_name :: "nat \<Rightarrow> string \<Rightarrow> string" where
  "short_name i vendor =
     (if i = 2 then ''NMI_'' else if i = 4 then ''MemManage_'' else if i = 11 then ''SVC_''
      else if i = 12 then ''DebugMon_'' else vendor)"

text \<open>The same names in the two places that print them: the declaration of the first loop
  (a slot without a name gets the placeholder) and the entry of the core exception table.\<close>

definition short_decl :: "(nat \<Rightarrow> string) \<Rightarrow> nat \<Rightarrow> string" where
  "short_decl tab i =
     (if tab i \<noteq> [] then weak_alias (''void '' @ short_name i (tab i) @ ''Handler(void)'')
      else weak_alias (''void IRQ'' @ dec (int i - 16) @ ''_IRQHandler(void)''))"

definition short_core :: "(nat \<Rightarrow> string) \<Rightarrow> nat \<Rightarrow> string" where
  "short_core tab i =
     ''        CX('' @ pad_left 2 (dec (int i)) @ '') = '' @ short_name i (tab i) @ ''Handler'' @
       (if i < 15 then '',\<newline>'' else ''\<newline>'')"

text \<open>Lines 202 to 204: the name of the file written.\<close>

definition output_name :: "string \<Rightarrow> string" where
  "output_name in_name = butlast (''startup_'' @ get_stripped_name in_name) @ ''c''"

text \<open>Lines 219 to 226: the comment at the head of the file, with the line on the vector count
  printed when the adjusted \<^verbatim>\<open>nirqns\<close> is set and differs from the MCU's count.\<close>

definition announce :: "string \<Rightarrow> string \<Rightarrow> options \<Rightarrow> int \<Rightarrow> string" where
  "announce ofname stripped_in_name opts maxirqn0 =
     (let mcuirqns = maxirqn0 + 1;
          nirqns1 = adjust_nirqns (addirqs opts) maxirqn0 (nirqns opts)
      in heading ofname stripped_in_name @
         (if stdexcnames opts then ''    Standard short core exception names.\<newline>'' else []) @
         (if nirqns1 > - 1 \<and> nirqns1 \<noteq> mcuirqns
          then ''    '' @ dec nirqns1 @ '' NVIC IRQ vectors (MCU defines '' @ dec mcuirqns @
                 '').\<newline>''
          else []) @
         (if addirqs opts then ''    Unused vector names defined.\<newline>'' else []) @
         ''*/\<newline>\<newline>'')"

text \<open>The layout of the file: the comment, the fixed text, the declarations, the core
  exception entries and the NVIC entries between the fixed parts of the table.\<close>

definition startup_file :: "string \<Rightarrow> string list \<Rightarrow> string list \<Rightarrow> string list \<Rightarrow> string" where
  "startup_file intro decls cores nvics =
     intro @ defhandler @ concat decls @ vtstart @ concat cores @ vtmid @ concat nvics @ vtend"

text \<open>The scanner's invariant: a slot that holds a name lies at or below \<^verbatim>\<open>maxirqn + 16\<close>,
  and the name has at most 30 characters (so that \<^verbatim>\<open>proto[50]\<close> and \<^verbatim>\<open>s[80]\<close> of the
  generator always have room for what \<^verbatim>\<open>sprintf\<close> and \<^verbatim>\<open>strcat\<close> write).\<close>

definition names_below_max :: "scan_state \<Rightarrow> bool" where
  "names_below_max st =
     (\<forall>i. irqname st i \<noteq> [] \<longrightarrow> int i \<le> maxirqn st + 16 \<and> length (irqname st i) \<le> 30)"

section \<open>Sample inputs\<close>

text \<open>Indeterminate contents that happen to be empty, and a header that declares one core
  exception and the NVIC interrupts 0 and 1.\<close>

definition zeroed :: indeterminate where
  "zeroed = \<lparr>irqid_at = (\<lambda>_. []), irqnum_at = (\<lambda>_. 0), s_at = (\<lambda>_. [])\<rparr>"

definition example_header :: string where
  "example_header =
     ''  NonMaskableInt_IRQn = -14,\<newline>'' @
     ''  WWDG_IRQn = 0,\<newline>'' @
     ''  PVD_IRQn = 1,\<newline>'' @
     ''} IRQn_Type;\<newline>''"

definition example_world :: world where
  "example_world =
     \<lparr>readable = (\<lambda>name. if name = ''x.h'' then Some example_header else None),
      creatable = (\<lambda>_. True)\<rparr>"

section \<open>The scanner: what a parsed line does\<close>

lemmas scan_eval = stored_name_def reported_def scan_header_def file_lines.simps MAXLINELEN_def
  scan_line_def scan_init_def sscanf_irq_def scan_s_def scan_d_def isspace_def nonspace_def
  isdigit_def digits_val_def int_ok_def IRQNAMELEN_def scan_entry_def strchr_def

lemma irqdefs_set_idem: "irqdefs st \<Longrightarrow> st\<lparr>irqdefs := True\<rparr> = st"
  by (cases st) simp

lemma strstr_sublist: "strstr hay needle = sublist needle hay"
  by (induction hay) (auto simp: sublist_Cons_right)

lemma scan_s_parts:
  assumes "scan_s ln = Some (tok, r)"
  shows "\<exists>pre. ln = pre @ tok @ r \<and> tok \<noteq> []"
proof -
  let ?r = "dropWhile isspace ln"
  from assms have ne: "?r \<noteq> []" and tok: "tok = takeWhile nonspace ?r"
    and r: "r = dropWhile nonspace ?r"
    by (auto simp: scan_s_def Let_def split: if_splits)
  have "ln = takeWhile isspace ln @ ?r" by simp
  also have "?r = tok @ r" using tok r by simp
  finally have "ln = takeWhile isspace ln @ tok @ r" .
  moreover have "tok \<noteq> []"
  proof -
    from ne obtain c cs where c: "?r = c # cs" by (cases ?r) auto
    then have "\<not> isspace c" using hd_dropWhile[of isspace ln] ne by auto
    with c tok show ?thesis by (simp add: nonspace_def)
  qed
  ultimately show ?thesis by blast
qed

text \<open>The identifier \<^verbatim>\<open>sscanf\<close> hands over is a non-empty piece of the line that fits
  the buffer.\<close>

lemma sscanf_irq_token:
  assumes "sscanf_irq id0 num0 ln = Inr (2, irqid, irqnum)"
  shows "sublist irqid ln" and "irqid \<noteq> []" and "length irqid < IRQNAMELEN"
proof -
  from assms obtain r where s: "scan_s ln = Some (irqid, r)" and l: "length irqid < IRQNAMELEN"
    by (auto simp: sscanf_irq_def split: option.splits if_splits list.splits)
  from scan_s_parts[OF s] show "sublist irqid ln" and "irqid \<noteq> []"
    by (auto simp: sublist_def)
  from l show "length irqid < IRQNAMELEN" .
qed

subsection \<open>Decimal numbers are read back\<close>

lemma dec_digit_props:
  assumes "d < 10"
  shows "isdigit (dec_digit d)" and "int (of_char (dec_digit d)) - 48 = int d"
proof -
  from assms have "d = 0 \<or> d = 1 \<or> d = 2 \<or> d = 3 \<or> d = 4 \<or> d = 5 \<or> d = 6 \<or> d = 7
      \<or> d = 8 \<or> d = 9"
    by arith
  then show "isdigit (dec_digit d)" and "int (of_char (dec_digit d)) - 48 = int d"
    by (elim disjE; simp add: dec_digit_def isdigit_def)+
qed

lemma dec_nat_digits: "list_all isdigit (dec_nat m) \<and> dec_nat m \<noteq> []"
proof (induction m rule: dec_nat.induct)
  case (1 n)
  show ?case
  proof (cases "n < 10")
    case True
    then show ?thesis by (subst (1 2) dec_nat.simps) (simp add: dec_digit_props)
  next
    case False
    with 1 have "list_all isdigit (dec_nat (n div 10))" by simp
    moreover have "isdigit (dec_digit (n mod 10))" by (rule dec_digit_props) simp
    ultimately show ?thesis using False by (subst (1 2) dec_nat.simps) simp
  qed
qed

lemma digits_val_snoc: "digits_val (ds @ [c]) = 10 * digits_val ds + (int (of_char c) - 48)"
  by (simp add: digits_val_def)

lemma digits_val_dec_nat: "digits_val (dec_nat m) = int m"
proof (induction m rule: dec_nat.induct)
  case (1 n)
  show ?case
  proof (cases "n < 10")
    case True
    then show ?thesis
      by (subst dec_nat.simps) (simp add: digits_val_def dec_digit_props)
  next
    case False
    with 1 have "digits_val (dec_nat (n div 10)) = int (n div 10)" by simp
    moreover have "int (of_char (dec_digit (n mod 10))) - 48 = int (n mod 10)"
      by (rule dec_digit_props) simp
    moreover have "10 * int (n div 10) + int (n mod 10) = int n"
      by presburger
    ultimately show ?thesis
      using False by (subst dec_nat.simps) (simp add: digits_val_snoc)
  qed
qed

lemma takeWhile_all_stop:
  assumes "list_all P xs" and "rest = [] \<or> \<not> P (hd rest)"
  shows "takeWhile P (xs @ rest) = xs" and "dropWhile P (xs @ rest) = rest"
proof -
  from assms(1) have a: "\<And>x. x \<in> set xs \<Longrightarrow> P x" by (simp add: list_all_iff)
  from assms(2) have t: "takeWhile P rest = []" and d: "dropWhile P rest = rest"
    by (cases rest; auto)+
  show "takeWhile P (xs @ rest) = xs" using a t by simp
  show "dropWhile P (xs @ rest) = rest" using a d by simp
qed

lemma digit_not_space: "isdigit c \<Longrightarrow> \<not> isspace c \<and> c \<noteq> CHR ''-'' \<and> c \<noteq> CHR ''+''"
  by (auto simp: isdigit_def isspace_def)

lemma scan_d_dec:
  assumes "list_all isspace sp" and "rest = [] \<or> \<not> isdigit (hd rest)"
  shows "scan_d (sp @ dec n @ rest) = Some (n, rest)"
proof -
  obtain d ds where dn: "dec_nat (nat \<bar>n\<bar>) = d # ds"
    using dec_nat_digits[of "nat \<bar>n\<bar>"] by (cases "dec_nat (nat \<bar>n\<bar>)") auto
  have digs: "list_all isdigit (d # ds)" using dec_nat_digits[of "nat \<bar>n\<bar>"] dn by simp
  then have d: "isdigit d" by simp
  have val: "digits_val (d # ds) = \<bar>n\<bar>" using digits_val_dec_nat[of "nat \<bar>n\<bar>"] dn by simp
  have tw: "takeWhile isdigit ((d # ds) @ rest) = d # ds"
    and dw: "dropWhile isdigit ((d # ds) @ rest) = rest"
    using takeWhile_all_stop[OF digs assms(2)] by auto
  show ?thesis
  proof (cases "n < 0")
    case True
    then have "dec n = CHR ''-'' # d # ds" using dn by (simp add: dec_def abs_if)
    moreover have "dropWhile isspace (sp @ CHR ''-'' # (d # ds) @ rest) = CHR ''-'' # (d # ds) @ rest"
      using assms(1) by (simp add: dropWhile_append2 list_all_iff isspace_def)
    ultimately show ?thesis
      using tw dw val True by (simp add: scan_d_def Let_def)
  next
    case False
    then have "dec n = d # ds" using dn by (simp add: dec_def abs_if)
    moreover have "dropWhile isspace (sp @ (d # ds) @ rest) = (d # ds) @ rest"
      using assms(1) digit_not_space[OF d] by (simp add: dropWhile_append2 list_all_iff)
    ultimately show ?thesis
      using tw dw val False digit_not_space[OF d] by (simp add: scan_d_def Let_def)
  qed
qed

lemma scan_s_token:
  assumes "list_all isspace pre" and "ident \<noteq> []" and "list_all nonspace ident"
      and "isspace c"
  shows "scan_s (pre @ ident @ c # rest) = Some (ident, c # rest)"
proof -
  from assms(2) obtain a as where i: "ident = a # as" by (cases ident) auto
  with assms(3) have a: "\<not> isspace a" by (simp add: nonspace_def split: if_splits)
  have 1: "dropWhile isspace (pre @ ident @ c # rest) = ident @ c # rest"
    using assms(1) a i by (simp add: dropWhile_append2 list_all_iff)
  have 2: "takeWhile nonspace (ident @ c # rest) = ident"
    and 3: "dropWhile nonspace (ident @ c # rest) = c # rest"
    using takeWhile_all_stop[OF assms(3), of "c # rest"] assms(4) by (simp_all add: nonspace_def)
  show ?thesis
    using 1 2 3 i by (simp add: scan_s_def Let_def)
qed

text \<open>A line written as the header writes its entries parses as one expects: white space, an
  identifier free of white space that fits the buffer, white space, \<^verbatim>\<open>=\<close>, optional white
  space, a decimal integer, and anything that does not go on with a digit.\<close>

lemma sscanf_irq_line_form:
  assumes "list_all isspace pre"
      and "ident \<noteq> []" and "list_all nonspace ident" and "length ident < IRQNAMELEN"
      and "isspace c" and "list_all isspace sp1" and "list_all isspace sp2"
      and "int_ok n" and "rest = [] \<or> \<not> isdigit (hd rest)"
  shows "sscanf_irq id0 num0 (pre @ ident @ c # sp1 @ ''='' @ sp2 @ dec n @ rest)
           = Inr (2, ident, n)"
proof -
  have 1: "scan_s (pre @ ident @ c # sp1 @ ''='' @ sp2 @ dec n @ rest)
      = Some (ident, c # sp1 @ ''='' @ sp2 @ dec n @ rest)"
    using assms(1,2,3,5) by (rule scan_s_token)
  have 2: "dropWhile isspace (c # sp1 @ ''='' @ sp2 @ dec n @ rest)
      = CHR ''='' # sp2 @ dec n @ rest"
    using assms(5,6) by (simp add: dropWhile_append2 list_all_iff) (simp add: isspace_def)
  have 3: "scan_d (sp2 @ dec n @ rest) = Some (n, rest)"
    using assms(7,9) by (rule scan_d_dec)
  show ?thesis
    unfolding sscanf_irq_def 1 using 2 3 assms(4,8) by simp
qed

subsection \<open>The loop body on a parsed line\<close>

lemma scan_line_parsed:
  assumes "sscanf_irq id0 num0 ln = Inr (2, irqid, irqnum)" and "irqnum < 496"
  shows "scan_line id0 num0 ln st =
           (if irqdefs st \<or> strstr ln ''_IRQn'' then
              (case scan_entry ln irqid irqnum (st\<lparr>irqdefs := True\<rparr>) of
                 Inl ub \<Rightarrow> Inl ub | Inr st2 \<Rightarrow> Inr (st2, False))
            else Inr (st, False))"
  using assms by (cases "irqdefs st") (auto simp: scan_line_def Let_def irqdefs_set_idem)

lemma scan_entry_stored:
  assumes "- 14 \<le> irqnum" and "irqnum < 496"
      and "(if 0 \<le> irqnum then 1 else 4) \<le> length irqid"
  shows "scan_entry ln irqid irqnum st =
           Inr (st\<lparr>maxirqn := max (maxirqn st) irqnum,
                  irqname := (irqname st)(nat (irqnum + 16) :=
                     take (length irqid - (if 0 \<le> irqnum then 1 else 4)) irqid)\<rparr>)"
  using assms by (cases st) (auto simp: scan_entry_def Let_def max_def)

lemma scan_entry_rejected:
  assumes "irqnum < - 14" and "4 \<le> length irqid"
  shows "scan_entry ln irqid irqnum st =
           Inr (st\<lparr>maxirqn := max (maxirqn st) irqnum,
                  errout := errout st @ ''error: '' @ ln @ ''\<newline>''\<rparr>)"
  using assms by (cases st) (auto simp: scan_entry_def Let_def max_def)

text \<open>
  C1. A line on which \<^verbatim>\<open>sscanf\<close> converts an identifier and an integer, read while the
  scanner is past the marker (or holding the marker itself), with the integer in the range
  the code stores (from -14 up to 495) and the identifier at least as long as the suffix
  cut from it: the iteration is defined, does not end the loop, and leaves the table
  changed in exactly one slot, the one whose index equals the integer plus 16. The name
  there is the identifier without its last character when the integer is at least 0, and
  without its last 4 characters when it is negative.
\<close>

theorem scan_line_stores:
  assumes "sscanf_irq id0 num0 ln = Inr (2, irqid, irqnum)"
      and "irqdefs st \<or> strstr ln ''_IRQn''"
      and "- 14 \<le> irqnum" and "irqnum < 496"
      and "(if 0 \<le> irqnum then 1 else 4) \<le> length irqid"
  shows "\<exists>st'. scan_line id0 num0 ln st = Inr (st', False) \<and>
           (\<forall>slot. irqname st' slot =
              (if int slot = irqnum + 16
               then take (length irqid - (if 0 \<le> irqnum then 1 else 4)) irqid
               else irqname st slot))"
proof -
  let ?name = "take (length irqid - (if 0 \<le> irqnum then 1 else 4)) irqid"
  let ?st = "st\<lparr>irqdefs := True\<rparr>"
  let ?st' = "?st\<lparr>maxirqn := max (maxirqn ?st) irqnum,
                   irqname := (irqname ?st)(nat (irqnum + 16) := ?name)\<rparr>"
  have "scan_entry ln irqid irqnum ?st = Inr ?st'"
    using assms(3-5) by (rule scan_entry_stored)
  then have "scan_line id0 num0 ln st = Inr (?st', False)"
    using scan_line_parsed[OF assms(1,4), of st] assms(2) by simp
  moreover have "\<forall>slot. irqname ?st' slot =
      (if int slot = irqnum + 16 then ?name else irqname st slot)"
    using assms(3) by auto
  ultimately show ?thesis by blast
qed

theorem scan_line_stores_witness:
  "\<exists>st'. scan_line [] 0 ''  NonMaskableInt_IRQn = -14,\<newline>'' scan_init = Inr (st', False) \<and>
     irqname st' 2 = ''NonMaskableInt_'' \<and> irqname st' 3 = []"
proof -
  let ?ln = "''  NonMaskableInt_IRQn = -14,\<newline>''"
  let ?id = "''NonMaskableInt_IRQn''"
  have p: "sscanf_irq [] 0 ?ln = Inr (2, ?id, - 14)"
    by (simp add: scan_eval)
  have a: "irqdefs scan_init \<or> strstr ?ln ''_IRQn''"
    by simp
  have "\<exists>st'. scan_line [] 0 ?ln scan_init = Inr (st', False) \<and>
           (\<forall>slot. irqname st' slot =
              (if int slot = - 14 + 16
               then take (length ?id - (if 0 \<le> (- 14 :: int) then 1 else 4)) ?id
               else irqname scan_init slot))"
    by (rule scan_line_stores[OF p a]) simp_all
  then obtain st' where 1: "scan_line [] 0 ?ln scan_init = Inr (st', False)"
    and 2: "\<And>slot. irqname st' slot =
              (if int slot = - 14 + 16
               then take (length ?id - (if 0 \<le> (- 14 :: int) then 1 else 4)) ?id
               else irqname scan_init slot)"
    by blast
  have "irqname st' 2 = ''NonMaskableInt_''"
    using 2[of 2] by simp
  moreover have "irqname st' 3 = []"
    using 2[of 3] by (simp add: scan_init_def)
  ultimately show ?thesis
    using 1 by blast
qed

lemma sublist_suffix_app: "sublist ys (xs @ ys)"
  unfolding sublist_def by (rule exI[of _ xs], rule exI[of _ "[]"]) simp

text \<open>
  C5, as the claim states it, fails: on the header with the line \<^verbatim>\<open>WWDG_IRQn = 0,\<close> the
  name in slot 16 (NVIC interrupt 0) is not \<^verbatim>\<open>WWDG_\<close>.
\<close>

theorem irqn_identifier_not_cut_to_underscore:
  "stored_name (scan_header zeroed example_header) 16 \<noteq> Some ''WWDG_''"
  by (simp add: scan_eval example_header_def)

text \<open>
  C5, amended. For an accepted line with an integer from 0 up to 495, an identifier of
  the form \<^verbatim>\<open>Foo_IRQn\<close> loses its last character only: the name stored at slot integer + 16
  is \<^verbatim>\<open>Foo_IRQ\<close> (the line holds the marker, so the scanner is active whatever came before).
  For the header lines \<^verbatim>\<open>WWDG_IRQn = 0,\<close> and \<^verbatim>\<open>PVD_IRQn = 1,\<close> the scanner stores the NVIC
  interrupts 0 and 1 (slots 16 and 17) under the names \<^verbatim>\<open>WWDG_IRQ\<close> and \<^verbatim>\<open>PVD_IRQ\<close>.
\<close>

theorem irqn_identifier_keeps_irq:
  "(sscanf_irq id0 num0 ln = Inr (2, foo @ ''_IRQn'', irqnum) \<and> 0 \<le> irqnum \<and> irqnum < 496
      \<longrightarrow> (\<exists>st'. scan_line id0 num0 ln st = Inr (st', False) \<and>
             irqname st' (nat (irqnum + 16)) = foo @ ''_IRQ''))
   \<and> stored_name (scan_header ind example_header) 16 = Some ''WWDG_IRQ''
   \<and> stored_name (scan_header ind example_header) 17 = Some ''PVD_IRQ''"
proof (intro conjI impI)
  assume a: "sscanf_irq id0 num0 ln = Inr (2, foo @ ''_IRQn'', irqnum) \<and> 0 \<le> irqnum
    \<and> irqnum < 496"
  let ?id = "foo @ ''_IRQn''"
  let ?st = "st\<lparr>irqdefs := True\<rparr>"
  from a have p: "sscanf_irq id0 num0 ln = Inr (2, ?id, irqnum)"
    and n: "0 \<le> irqnum" "irqnum < 496"
    by auto
  have "sublist ?id ln" using p by (rule sscanf_irq_token)
  moreover have "sublist ''_IRQn'' ?id" by (rule sublist_suffix_app)
  ultimately have m: "strstr ln ''_IRQn''"
    unfolding strstr_sublist by (rule sublist_order.order.trans[rotated])
  have "scan_entry ln ?id irqnum ?st =
      Inr (?st\<lparr>maxirqn := max (maxirqn ?st) irqnum,
               irqname := (irqname ?st)(nat (irqnum + 16) :=
                  take (length ?id - (if 0 \<le> irqnum then 1 else 4)) ?id)\<rparr>)"
    using n by (intro scan_entry_stored) auto
  then show "\<exists>st'. scan_line id0 num0 ln st = Inr (st', False) \<and>
             irqname st' (nat (irqnum + 16)) = foo @ ''_IRQ''"
    using scan_line_parsed[OF p n(2), of st] m n by simp
next
  show "stored_name (scan_header ind example_header) 16 = Some ''WWDG_IRQ''"
    by (simp add: scan_eval example_header_def)
next
  show "stored_name (scan_header ind example_header) 17 = Some ''PVD_IRQ''"
    by (simp add: scan_eval example_header_def)
qed

theorem irqn_identifier_keeps_irq_witness:
  "\<exists>st'. scan_line [] 0 ''  WWDG_IRQn = 0,\<newline>'' scan_init = Inr (st', False) \<and>
     irqname st' 16 = ''WWDG_IRQ''"
proof -
  have p: "sscanf_irq [] 0 ''  WWDG_IRQn = 0,\<newline>'' = Inr (2, ''WWDG'' @ ''_IRQn'', 0)
      \<and> (0::int) \<le> 0 \<and> (0::int) < 496"
    by (simp add: scan_eval)
  show ?thesis
    using irqn_identifier_keeps_irq[THEN conjunct1, rule_format, OF p, of scan_init] by simp
qed

text \<open>
  C6, as the claim states it, fails: -15 lies within [-16, 512], yet the line
  \<^verbatim>\<open>Foo_IRQn = -15,\<close> leaves slot 1 empty and is reported on the error stream.
\<close>

theorem slot_minus_15_not_stored:
  "stored_name (scan_header zeroed ''Foo_IRQn = -15,\<newline>'') 1 = Some []
   \<and> reported (scan_header zeroed ''Foo_IRQn = -15,\<newline>'')
       = Some ''error: Foo_IRQn = -15,\<newline>\<newline>''"
  by (simp add: scan_eval)

text \<open>
  C6, amended. For every line parsed as identifier and integer with the integer below 496,
  read while the scanner is active, whose identifier is at least as long as the suffix cut
  from it: if the integer is at least -14 the entry is stored at slot integer + 16, replacing
  what the slot held, and nothing is reported; otherwise the text \<^verbatim>\<open>error: \<close>, the line and
  a newline go to the error stream and the table is unchanged. In both cases the iteration
  is defined and the loop goes on with the next line.
\<close>

theorem parsed_line_stored_or_reported:
  assumes "sscanf_irq (irqid_at ind k) (irqnum_at ind k) ln = Inr (2, irqid, irqnum)"
      and "irqdefs st \<or> strstr ln ''_IRQn''"
      and "irqnum < 496"
      and "(if 0 \<le> irqnum then 1 else 4) \<le> length irqid"
  shows "\<exists>st'. scan_line (irqid_at ind k) (irqnum_at ind k) ln st = Inr (st', False)
           \<and> scan_loop ind k (ln # lns) st = scan_loop ind (Suc k) lns st'
           \<and> (if - 14 \<le> irqnum
              then irqname st' = (irqname st)(nat (irqnum + 16) :=
                     take (length irqid - (if 0 \<le> irqnum then 1 else 4)) irqid)
                   \<and> errout st' = errout st
              else irqname st' = irqname st
                   \<and> errout st' = errout st @ ''error: '' @ ln @ ''\<newline>'')"
proof (cases "- 14 \<le> irqnum")
  case True
  let ?st = "st\<lparr>irqdefs := True\<rparr>"
  have "scan_entry ln irqid irqnum ?st =
      Inr (?st\<lparr>maxirqn := max (maxirqn ?st) irqnum,
               irqname := (irqname ?st)(nat (irqnum + 16) :=
                  take (length irqid - (if 0 \<le> irqnum then 1 else 4)) irqid)\<rparr>)"
    using True assms(3,4) by (rule scan_entry_stored)
  then show ?thesis
    using scan_line_parsed[OF assms(1,3), of st] assms(2) True by simp
next
  case False
  let ?st = "st\<lparr>irqdefs := True\<rparr>"
  from False assms(4) have "irqnum < - 14" and "4 \<le> length irqid"
    by (auto split: if_splits)
  then have "scan_entry ln irqid irqnum ?st =
      Inr (?st\<lparr>maxirqn := max (maxirqn ?st) irqnum,
               errout := errout ?st @ ''error: '' @ ln @ ''\<newline>''\<rparr>)"
    by (rule scan_entry_rejected)
  then show ?thesis
    using scan_line_parsed[OF assms(1,3), of st] assms(2) False by simp
qed

theorem parsed_line_stored_or_reported_witness:
  "\<exists>st'. scan_line [] 0 ''Foo_IRQn = -15,\<newline>'' scan_init = Inr (st', False)
      \<and> scan_loop zeroed 0 [''Foo_IRQn = -15,\<newline>'', ''Bar_IRQn = 3,\<newline>''] scan_init
          = scan_loop zeroed 1 [''Bar_IRQn = 3,\<newline>''] st'
      \<and> irqname st' = (\<lambda>_. [])
      \<and> errout st' = ''error: Foo_IRQn = -15,\<newline>\<newline>''"
proof -
  have p: "sscanf_irq (irqid_at zeroed 0) (irqnum_at zeroed 0) ''Foo_IRQn = -15,\<newline>''
             = Inr (2, ''Foo_IRQn'', - 15)"
    by (simp add: scan_eval zeroed_def)
  have a: "irqdefs scan_init \<or> strstr ''Foo_IRQn = -15,\<newline>'' ''_IRQn''"
    by simp
  show ?thesis
    using parsed_line_stored_or_reported[OF p a, of "[''Bar_IRQn = 3,\<newline>'']"]
    by (simp add: zeroed_def scan_init_def)
qed

section \<open>Runs of \<^verbatim>\<open>main\<close>\<close>

lemmas opt_eval = parse_options.simps[of "_ # _"] char_at_def options_init_def

text \<open>A run that writes a file went through the option loop, read the input, scanned it
  and wrote what the generator gives.\<close>

lemma main_outfile:
  assumes "main ind w argv = Inr r" and "outfile r = Some (name, txt)"
  shows "\<exists>opts carg content st.
           parse_options argv 1 options_init = Continue (opts, carg) \<and> carg < length argv
           \<and> readable w (argv ! carg) = Some content
           \<and> scan_header ind content = Inr st
           \<and> creatable w name
           \<and> txt = generate ind opts st name (get_stripped_name (argv ! carg))"
  using assms
  by (auto simp: main_def write_output_def Let_def
      split: if_splits flow.splits option.splits sum.splits prod.splits)

text \<open>Once the input has been scanned, a run that cannot create its output is undefined:
  the branch of line 207 is never taken.\<close>

lemma uncreatable_output_undefined:
  assumes "2 \<le> length argv"
      and "parse_options argv 1 options_init = Continue (opts, carg)" and "carg < length argv"
      and "readable w (argv ! carg) = Some content"
      and "scan_header ind content = Inr st"
      and "\<And>name. \<not> creatable w name"
  shows "main ind w argv = Inl Null_Stream \<or> main ind w argv = Inl Ofname_Overflow"
  using assms by (simp add: main_def write_output_def Let_def)

text \<open>
  C10. When at least one argument is given and the option loop runs through all of them,
  \<^verbatim>\<open>main\<close> writes \<^verbatim>\<open>file not specified\<close> to the error stream and returns 1, a status that
  is none of 0, \<^verbatim>\<open>ERR_NOFILE\<close>, \<^verbatim>\<open>ERR_BADFORMAT\<close> and \<^verbatim>\<open>ERR_BADOPT\<close> (0, 2, 3 and 4).
\<close>

theorem no_input_file_exit_1:
  assumes "2 \<le> length argv"
      and "parse_options argv 1 options_init = Continue (opts, carg)"
      and "carg \<ge> length argv"
  shows "main ind w argv =
           Inr \<lparr>exit_code = 1, stdout = [], stderr = ''file not specified\<newline>'',
                outfile = None\<rparr>
         \<and> (1::int) \<notin> {0, ERR_NOFILE, ERR_BADFORMAT, ERR_BADOPT}"
  using assms by (simp add: main_def ERR_NOFILE_def ERR_BADFORMAT_def ERR_BADOPT_def)

theorem no_input_file_exit_1_witness:
  "main zeroed example_world [''h2cstartup'', ''-n'', ''5'', ''-i''] =
     Inr \<lparr>exit_code = 1, stdout = [], stderr = ''file not specified\<newline>'', outfile = None\<rparr>"
proof -
  have p: "parse_options [''h2cstartup'', ''-n'', ''5'', ''-i''] 1 options_init
          = Continue (\<lparr>addirqs = True, stdexcnames = False, nirqns = 5\<rparr>, 4)"
    by (simp add: opt_eval scan_d_def isspace_def isdigit_def digits_val_def int_ok_def)
  show ?thesis
    using no_input_file_exit_1[OF _ p, of zeroed example_world] by simp
qed

lemma example_scan:
  "scan_header ind example_header =
     Inr \<lparr>irqdefs = True, maxirqn = 1,
          irqname = (\<lambda>i. if i = 2 then ''NonMaskableInt_'' else if i = 16 then ''WWDG_IRQ''
                          else if i = 17 then ''PVD_IRQ'' else []),
          errout = []\<rparr>"
  by (simp add: scan_eval example_header_def fun_eq_iff)

lemma example_options_plain:
  "parse_options [''h2cstartup'', ''x.h''] 1 options_init = Continue (options_init, 1)"
  by (simp add: opt_eval)

lemma example_options_i_n4:
  "parse_options [''h2cstartup'', ''-i'', ''-n'', ''4'', ''x.h''] 1 options_init
     = Continue (\<lparr>addirqs = True, stdexcnames = False, nirqns = 4\<rparr>, 4)"
  by (simp add: opt_eval scan_d_def isspace_def isdigit_def digits_val_def int_ok_def)

lemmas gen_eval = generate_def adjust_nirqns_def limit_maxirqn_def decl_slots_def decl_at_def
  core_slots_def core_at_def nvic_slots_def nvic_at_def dec_def dec_nat.simps dec_digit_def
  pad_left_def stdexcname_def Let_def

text \<open>
  C4. The run \<^verbatim>\<open>h2cstartup -i -n 4 x.h\<close> on the sample header (NVIC interrupts 0 and 1, one
  core exception): the file written announces 4 NVIC IRQ vectors, yet its NVIC table has
  the two entries of the parsed names only, and no declaration or entry for the indices
  2 and 3. Lines 232 and 233 only ever lower \<^verbatim>\<open>maxirqn\<close>.
\<close>

theorem unused_vectors_not_added:
  "main ind example_world [''h2cstartup'', ''-i'', ''-n'', ''4'', ''x.h''] =
     Inr \<lparr>exit_code = 0, stdout = [], stderr = [],
          outfile = Some (''startup_x.c'',
            heading ''startup_x.c'' ''x.h'' @
            ''    4 NVIC IRQ vectors (MCU defines 2).\<newline>'' @
            ''    Unused vector names defined.\<newline>'' @
            ''*/\<newline>\<newline>'' @
            defhandler @
            weak_alias ''void NonMaskableInt_Handler(void)'' @
            weak_alias ''void WWDG_IRQHandler(void)'' @
            weak_alias ''void PVD_IRQHandler(void)'' @
            vtstart @
            ''        CX( 2) = NonMaskableInt_Handler,\<newline>'' @
            vtmid @
            ''        [ 0] = WWDG_IRQHandler,\<newline>'' @
            ''        [ 1] = PVD_IRQHandler\<newline>'' @
            vtend)\<rparr>"
  unfolding main_def example_options_i_n4
  by (simp add: example_scan example_world_def write_output_def get_stripped_name_def
      strchr_def gen_eval)

text \<open>
  C9. The run \<^verbatim>\<open>h2cstartup x.h\<close> where the header can be read and no file can be created:
  line 207 tests \<^verbatim>\<open>in\<close>, which is not null, so nothing is reported and no status 2 is
  returned; the run reaches \<^verbatim>\<open>fprintf\<close> on the null stream \<^verbatim>\<open>out\<close>.
\<close>

theorem uncreatable_output_null_stream:
  "main ind (example_world\<lparr>creatable := (\<lambda>_. False)\<rparr>) [''h2cstartup'', ''x.h'']
     = Inl Null_Stream"
  unfolding main_def example_options_plain
  by (simp add: example_scan example_world_def write_output_def get_stripped_name_def
      strchr_def)

section \<open>Short core exception names\<close>

lemma scan_entry_inv:
  assumes "scan_entry ln irqid irqnum st = Inr st'" and "length irqid < IRQNAMELEN"
      and "names_below_max st"
  shows "names_below_max st'"
  using assms
  by (auto simp: scan_entry_def names_below_max_def Let_def IRQNAMELEN_def split: if_splits)

lemma scan_line_inv:
  assumes "scan_line id0 num0 ln st = Inr (st', brk)" and "names_below_max st"
  shows "names_below_max st'"
proof -
  let ?st1 = "if \<not> irqdefs st \<and> strstr ln ''_IRQn'' then st\<lparr>irqdefs := True\<rparr> else st"
  have i1: "names_below_max ?st1"
    using assms(2) by (simp add: names_below_max_def)
  show ?thesis
  proof (cases "\<exists>irqid irqnum. sscanf_irq id0 num0 ln = Inr (2, irqid, irqnum)
      \<and> irqnum < 496 \<and> irqdefs ?st1")
    case True
    then obtain irqid irqnum where p: "sscanf_irq id0 num0 ln = Inr (2, irqid, irqnum)"
      and n: "irqnum < 496" and d: "irqdefs ?st1" by blast
    from assms(1) p n d have "scan_entry ln irqid irqnum ?st1 = Inr st'"
      by (auto simp: scan_line_def Let_def split: sum.splits if_splits)
    then show ?thesis
      using sscanf_irq_token(3)[OF p] i1 by (rule scan_entry_inv)
  next
    case False
    with assms(1) have "st' = ?st1"
      by (auto simp: scan_line_def Let_def split: sum.splits if_splits prod.splits)
    with i1 show ?thesis by simp
  qed
qed

lemma scan_loop_inv:
  "scan_loop ind k lns st = Inr st' \<Longrightarrow> names_below_max st \<Longrightarrow> names_below_max st'"
proof (induction lns arbitrary: k st)
  case Nil
  then show ?case by simp
next
  case (Cons ln lns)
  from Cons.prems(1) obtain st1 brk where
    l: "scan_line (irqid_at ind k) (irqnum_at ind k) ln st = Inr (st1, brk)"
    and r: "(if brk then Inr st1 else scan_loop ind (Suc k) lns st1) = Inr st'"
    by (auto split: sum.splits)
  have i1: "names_below_max st1" using l Cons.prems(2) by (rule scan_line_inv)
  show ?case
  proof (cases brk)
    case True
    with r i1 show ?thesis by simp
  next
    case False
    with r have "scan_loop ind (Suc k) lns st1 = Inr st'" by simp
    then show ?thesis using i1 by (rule Cons.IH)
  qed
qed

lemma scan_header_inv: "scan_header ind content = Inr st \<Longrightarrow> names_below_max st"
  unfolding scan_header_def
  by (erule scan_loop_inv) (simp add: names_below_max_def scan_init_def)

lemma parse_options_nirqns:
  "parse_options argv carg opts = Continue (opts', carg') \<Longrightarrow>
     - 1 \<le> nirqns opts \<and> nirqns opts \<le> 496 \<Longrightarrow> - 1 \<le> nirqns opts' \<and> nirqns opts' \<le> 496"
proof (induction argv carg opts rule: parse_options.induct)
  case (1 argv carg opts)
  note e = "1.prems"(1)[unfolded parse_options.simps[of argv carg opts]]
  show ?case
  proof (cases "carg < length argv \<and> char_at (argv ! carg) 0 = CHR ''-''")
    case False
    with e "1.prems"(2) show ?thesis by auto
  next
    case opt: True
    show ?thesis
    proof (cases "char_at (argv ! carg) 1 = CHR ''n''")
      case True
      with e opt obtain n r where a: "\<not> carg + 1 \<ge> length argv"
        and s: "scan_d (argv ! (carg + 1)) = Some (n, r)" and ok: "int_ok n"
        and rng: "\<not> (n < 0 \<or> n > 496)"
        and rec: "parse_options argv (carg + 2) (opts\<lparr>nirqns := n\<rparr>)
                    = Continue (opts', carg')"
        by (auto split: if_splits option.splits)
      from rng have "- 1 \<le> nirqns (opts\<lparr>nirqns := n\<rparr>) \<and> nirqns (opts\<lparr>nirqns := n\<rparr>) \<le> 496"
        by simp
      with "1.IH"(1)[OF opt True a s refl ok rng rec] show ?thesis .
    next
      case notn: False
      show ?thesis
      proof (cases "char_at (argv ! carg) 1 = CHR ''i''")
        case True
        with e opt notn have "parse_options argv (carg + 1) (opts\<lparr>addirqs := True\<rparr>)
            = Continue (opts', carg')" by simp
        from "1.IH"(2)[OF opt notn True this] "1.prems"(2) show ?thesis by simp
      next
        case noti: False
        with e opt notn have s: "char_at (argv ! carg) 1 = CHR ''s''"
          and "parse_options argv (carg + 1) (opts\<lparr>stdexcnames := True\<rparr>)
            = Continue (opts', carg')" by (auto split: if_splits)
        from "1.IH"(3)[OF opt notn noti this] "1.prems"(2) show ?thesis by simp
      qed
    qed
  qed
qed

text \<open>The options of a run: \<^verbatim>\<open>nirqns\<close> is -1 or what \<^verbatim>\<open>-n\<close> accepted, from 0 to 496.\<close>

lemma run_options_nirqns:
  assumes "parse_options argv 1 options_init = Continue (opts, carg)"
  shows "- 1 \<le> nirqns opts \<and> nirqns opts \<le> 496"
  using assms by (rule parse_options_nirqns) (simp add: options_init_def)

lemma effective_maxirqn_core:
  assumes "- 1 \<le> nirqns opts"
  shows "min maxirqn0 (- 1) \<le> effective_maxirqn opts maxirqn0"
  using assms by (auto simp: effective_maxirqn_def limit_maxirqn_def adjust_nirqns_def Let_def)

lemma stdexcname_short:
  assumes "2 \<le> i" and "i < 16"
  shows "(case stdexcname ! i of Some nm \<Rightarrow> nm | None \<Rightarrow> v) = short_name i v"
proof -
  from assms have "i = 2 \<or> i = 3 \<or> i = 4 \<or> i = 5 \<or> i = 6 \<or> i = 7 \<or> i = 8 \<or> i = 9
      \<or> i = 10 \<or> i = 11 \<or> i = 12 \<or> i = 13 \<or> i = 14 \<or> i = 15"
    by arith
  then show ?thesis
    by (elim disjE) (simp_all add: stdexcname_def short_name_def)
qed

lemma short_name_vendor: "16 \<le> i \<Longrightarrow> short_name i v = v"
  by (simp add: short_name_def)

lemma decl_at_short:
  assumes "i \<in> set (decl_slots addirqs_flag tab e)"
  shows "decl_at True addirqs_flag tab i = short_decl tab i"
proof -
  from assms have i: "2 \<le> i" and c: "tab i \<noteq> [] \<or> (16 \<le> i \<and> addirqs_flag)"
    unfolding decl_slots_def set_filter set_upt by auto
  show ?thesis
  proof (cases "i < 16")
    case True
    with i c show ?thesis
      by (simp add: decl_at_def short_decl_def stdexcname_short[OF i True])
  next
    case False
    with c show ?thesis
      by (simp add: decl_at_def short_decl_def short_name_vendor)
  qed
qed

lemma core_at_short:
  assumes "i \<in> set (core_slots tab)"
  shows "core_at True tab i = short_core tab i"
proof -
  from assms have i: "2 \<le> i" "i < 16"
    unfolding core_slots_def set_filter set_upt by auto
  show ?thesis
    by (simp add: core_at_def short_core_def stdexcname_short[OF i])
qed

section \<open>What a run writes\<close>

text \<open>The generator's text section by section, and the run that writes it: a run that gets
  through the options, reads and scans its input and can create its output returns 0.\<close>

lemma generate_layout:
  "generate ind opts st ofname nm =
     startup_file (announce ofname nm opts (maxirqn st))
       (map (decl_at (stdexcnames opts) (addirqs opts) (irqname st))
          (decl_slots (addirqs opts) (irqname st) (effective_maxirqn opts (maxirqn st))))
       (map (core_at (stdexcnames opts) (irqname st)) (core_slots (irqname st)))
       (map (\<lambda>i. nvic_at (addirqs opts) (irqname st) (effective_maxirqn opts (maxirqn st))
                   (s_at ind i) i)
          (nvic_slots (addirqs opts) (irqname st) (effective_maxirqn opts (maxirqn st))))"
  unfolding generate_def startup_file_def announce_def effective_maxirqn_def Let_def
  by (simp only: append_assoc)

lemma main_generates:
  assumes "2 \<le> length argv"
      and "parse_options argv 1 options_init = Continue (opts, carg)" and "carg < length argv"
      and "readable w (argv ! carg) = Some content"
      and "scan_header ind content = Inr st"
      and "length (get_stripped_name (argv ! carg)) \<le> 191"
      and "creatable w (output_name (argv ! carg))"
  shows "main ind w argv =
           Inr \<lparr>exit_code = 0, stdout = [], stderr = errout st,
                outfile = Some (output_name (argv ! carg),
                  generate ind opts st (output_name (argv ! carg))
                    (get_stripped_name (argv ! carg)))\<rparr>"
  using assms by (simp add: main_def write_output_def Let_def output_name_def)





lemma example_options_n4:
  "parse_options [''h2cstartup'', ''-n'', ''4'', ''x.h''] 1 options_init
     = Continue (\<lparr>addirqs = False, stdexcnames = False, nirqns = 4\<rparr>, 3)"
  by (simp add: opt_eval scan_d_def isspace_def isdigit_def digits_val_def int_ok_def)

lemma example_options_s:
  "parse_options [''h2cstartup'', ''-s'', ''x.h''] 1 options_init
     = Continue (\<lparr>addirqs = False, stdexcnames = True, nirqns = - 1\<rparr>, 2)"
  by (simp add: opt_eval)

lemmas file_eval = startup_file_def announce_def output_name_def get_stripped_name_def strchr_def
  adjust_nirqns_def decl_slots_def decl_at_def core_slots_def core_at_def nvic_slots_def
  nvic_at_def dec_def dec_nat.simps dec_digit_def pad_left_def stdexcname_def Let_def





lemma clamped_maxirqn:
  assumes "nirqns opts > maxirqn0 + 1" and "\<not> addirqs opts"
  shows "effective_maxirqn opts maxirqn0 = maxirqn0"
    and "adjust_nirqns (addirqs opts) maxirqn0 (nirqns opts) = maxirqn0 + 1"
  using assms by (auto simp: effective_maxirqn_def limit_maxirqn_def adjust_nirqns_def Let_def)

lemma clamped_announce:
  assumes "nirqns opts > maxirqn0 + 1" and "\<not> addirqs opts"
  shows "announce ofname nm opts maxirqn0 =
           heading ofname nm @
           (if stdexcnames opts then ''    Standard short core exception names.\<newline>'' else []) @
           ''*/\<newline>\<newline>''"
  unfolding announce_def Let_def clamped_maxirqn(2)[OF assms] using assms(2) by simp

text \<open>
  C3. A run with \<^verbatim>\<open>nirqns\<close> above the MCU's count \<^verbatim>\<open>maxirqn + 1\<close> and without \<^verbatim>\<open>-i\<close>: the
  adjusted \<^verbatim>\<open>nirqns\<close> is exactly \<^verbatim>\<open>maxirqn + 1\<close>, so the file written has no line on the
  vector count, has the declarations and the NVIC table up to \<^verbatim>\<open>maxirqn\<close>, and is the file
  that a request of exactly \<^verbatim>\<open>maxirqn + 1\<close> vectors gives.
\<close>

theorem nirqns_clamped:
  assumes "2 \<le> length argv"
      and "parse_options argv 1 options_init = Continue (opts, carg)" and "carg < length argv"
      and "readable w (argv ! carg) = Some content"
      and "scan_header ind content = Inr st"
      and "length (get_stripped_name (argv ! carg)) \<le> 191"
      and "creatable w (output_name (argv ! carg))"
      and "nirqns opts > maxirqn st + 1" and "\<not> addirqs opts"
  shows "adjust_nirqns (addirqs opts) (maxirqn st) (nirqns opts) = maxirqn st + 1
       \<and> main ind w argv =
           Inr \<lparr>exit_code = 0, stdout = [], stderr = errout st,
                outfile = Some (output_name (argv ! carg),
                  startup_file
                    (heading (output_name (argv ! carg)) (get_stripped_name (argv ! carg)) @
                     (if stdexcnames opts then ''    Standard short core exception names.\<newline>''
                      else []) @
                     ''*/\<newline>\<newline>'')
                    (map (decl_at (stdexcnames opts) (addirqs opts) (irqname st))
                       (decl_slots (addirqs opts) (irqname st) (maxirqn st)))
                    (map (core_at (stdexcnames opts) (irqname st)) (core_slots (irqname st)))
                    (map (\<lambda>i. nvic_at (addirqs opts) (irqname st) (maxirqn st) (s_at ind i) i)
                       (nvic_slots (addirqs opts) (irqname st) (maxirqn st))))\<rparr>
       \<and> main ind w argv =
           Inr \<lparr>exit_code = 0, stdout = [], stderr = errout st,
                outfile = Some (output_name (argv ! carg),
                  generate ind (opts\<lparr>nirqns := maxirqn st + 1\<rparr>) st (output_name (argv ! carg))
                    (get_stripped_name (argv ! carg)))\<rparr>"
proof (intro conjI)
  show "adjust_nirqns (addirqs opts) (maxirqn st) (nirqns opts) = maxirqn st + 1"
    using assms(8,9) by (rule clamped_maxirqn)
  show "main ind w argv =
           Inr \<lparr>exit_code = 0, stdout = [], stderr = errout st,
                outfile = Some (output_name (argv ! carg),
                  startup_file
                    (heading (output_name (argv ! carg)) (get_stripped_name (argv ! carg)) @
                     (if stdexcnames opts then ''    Standard short core exception names.\<newline>''
                      else []) @
                     ''*/\<newline>\<newline>'')
                    (map (decl_at (stdexcnames opts) (addirqs opts) (irqname st))
                       (decl_slots (addirqs opts) (irqname st) (maxirqn st)))
                    (map (core_at (stdexcnames opts) (irqname st)) (core_slots (irqname st)))
                    (map (\<lambda>i. nvic_at (addirqs opts) (irqname st) (maxirqn st) (s_at ind i) i)
                       (nvic_slots (addirqs opts) (irqname st) (maxirqn st))))\<rparr>"
    unfolding main_generates[OF assms(1-7)] generate_layout
      clamped_maxirqn(1)[OF assms(8,9)] clamped_announce[OF assms(8,9)]
    by (rule refl)
  have "generate ind opts st ofn nm = generate ind (opts\<lparr>nirqns := maxirqn st + 1\<rparr>) st ofn nm"
    for ofn nm
    using assms(8,9) by (simp add: generate_def adjust_nirqns_def limit_maxirqn_def Let_def)
  then show "main ind w argv =
           Inr \<lparr>exit_code = 0, stdout = [], stderr = errout st,
                outfile = Some (output_name (argv ! carg),
                  generate ind (opts\<lparr>nirqns := maxirqn st + 1\<rparr>) st (output_name (argv ! carg))
                    (get_stripped_name (argv ! carg)))\<rparr>"
    unfolding main_generates[OF assms(1-7)] by simp
qed

theorem nirqns_clamped_witness:
  "main zeroed example_world [''h2cstartup'', ''-n'', ''4'', ''x.h''] =
     Inr \<lparr>exit_code = 0, stdout = [], stderr = [],
          outfile = Some (''startup_x.c'',
            heading ''startup_x.c'' ''x.h'' @
            ''*/\<newline>\<newline>'' @
            defhandler @
            weak_alias ''void NonMaskableInt_Handler(void)'' @
            weak_alias ''void WWDG_IRQHandler(void)'' @
            weak_alias ''void PVD_IRQHandler(void)'' @
            vtstart @
            ''        CX( 2) = NonMaskableInt_Handler,\<newline>'' @
            vtmid @
            ''        [ 0] = WWDG_IRQHandler,\<newline>'' @
            ''        [ 1] = PVD_IRQHandler\<newline>'' @
            vtend)\<rparr>"
proof -
  let ?argv = "[''h2cstartup'', ''-n'', ''4'', ''x.h'']"
  have 1: "2 \<le> length ?argv" and 3: "3 < length ?argv" by simp_all
  have 4: "readable example_world (?argv ! 3) = Some example_header"
    by (simp add: example_world_def)
  have 6: "length (get_stripped_name (?argv ! 3)) \<le> 191"
    by (simp add: get_stripped_name_def strchr_def)
  have 7: "creatable example_world (output_name (?argv ! 3))"
    by (simp add: example_world_def)
  have 8: "nirqns \<lparr>addirqs = False, stdexcnames = False, nirqns = 4\<rparr>
        > maxirqn \<lparr>irqdefs = True, maxirqn = 1,
          irqname = (\<lambda>i. if i = 2 then ''NonMaskableInt_'' else if i = 16 then ''WWDG_IRQ''
                          else if i = 17 then ''PVD_IRQ'' else []),
          errout = []\<rparr> + 1"
    by simp
  have 9: "\<not> addirqs \<lparr>addirqs = False, stdexcnames = False, nirqns = 4\<rparr>" by simp
  show ?thesis
    unfolding nirqns_clamped[OF 1 example_options_n4 3 4 example_scan 6 7 8 9,
        THEN conjunct2, THEN conjunct1]
    by (simp add: file_eval)
qed


text \<open>
  C7. A run with \<^verbatim>\<open>-s\<close> that writes its file: every declaration of a named slot and every
  entry of the core exception table in the file uses \<^verbatim>\<open>NMI_\<close>, \<^verbatim>\<open>MemManage_\<close>, \<^verbatim>\<open>SVC_\<close> or
  \<^verbatim>\<open>DebugMon_\<close> at the slots 2, 4, 11 and 12 and the vendor name unchanged at every other
  slot, and every core exception slot 2..15 that holds a vendor name has its declaration
  and its entry.
\<close>

theorem short_core_names:
  assumes "2 \<le> length argv"
      and "parse_options argv 1 options_init = Continue (opts, carg)" and "carg < length argv"
      and "readable w (argv ! carg) = Some content"
      and "scan_header ind content = Inr st"
      and "length (get_stripped_name (argv ! carg)) \<le> 191"
      and "creatable w (output_name (argv ! carg))"
      and "stdexcnames opts"
  shows "main ind w argv =
           Inr \<lparr>exit_code = 0, stdout = [], stderr = errout st,
                outfile = Some (output_name (argv ! carg),
                  startup_file
                    (announce (output_name (argv ! carg)) (get_stripped_name (argv ! carg)) opts
                       (maxirqn st))
                    (map (short_decl (irqname st))
                       (decl_slots (addirqs opts) (irqname st)
                          (effective_maxirqn opts (maxirqn st))))
                    (map (short_core (irqname st)) (core_slots (irqname st)))
                    (map (\<lambda>i. nvic_at (addirqs opts) (irqname st)
                                (effective_maxirqn opts (maxirqn st)) (s_at ind i) i)
                       (nvic_slots (addirqs opts) (irqname st)
                          (effective_maxirqn opts (maxirqn st)))))\<rparr>
         \<and> (\<forall>i. 2 \<le> i \<and> i < 16 \<and> irqname st i \<noteq> [] \<longrightarrow>
               i \<in> set (decl_slots (addirqs opts) (irqname st)
                          (effective_maxirqn opts (maxirqn st)))
               \<and> i \<in> set (core_slots (irqname st)))"
proof
  have d: "map (decl_at (stdexcnames opts) (addirqs opts) (irqname st))
             (decl_slots (addirqs opts) (irqname st) (effective_maxirqn opts (maxirqn st)))
         = map (short_decl (irqname st))
             (decl_slots (addirqs opts) (irqname st) (effective_maxirqn opts (maxirqn st)))"
    using assms(8) by (intro map_cong[OF refl]) (simp add: decl_at_short)
  have c: "map (core_at (stdexcnames opts) (irqname st)) (core_slots (irqname st))
         = map (short_core (irqname st)) (core_slots (irqname st))"
    using assms(8) by (intro map_cong[OF refl]) (simp add: core_at_short)
  show "main ind w argv =
           Inr \<lparr>exit_code = 0, stdout = [], stderr = errout st,
                outfile = Some (output_name (argv ! carg),
                  startup_file
                    (announce (output_name (argv ! carg)) (get_stripped_name (argv ! carg)) opts
                       (maxirqn st))
                    (map (short_decl (irqname st))
                       (decl_slots (addirqs opts) (irqname st)
                          (effective_maxirqn opts (maxirqn st))))
                    (map (short_core (irqname st)) (core_slots (irqname st)))
                    (map (\<lambda>i. nvic_at (addirqs opts) (irqname st)
                                (effective_maxirqn opts (maxirqn st)) (s_at ind i) i)
                       (nvic_slots (addirqs opts) (irqname st)
                          (effective_maxirqn opts (maxirqn st)))))\<rparr>"
    unfolding main_generates[OF assms(1-7)] generate_layout d c by (rule refl)
  have inv: "names_below_max st" using assms(5) by (rule scan_header_inv)
  have "- 1 \<le> nirqns opts"
    using run_options_nirqns[OF assms(2)] by simp
  then have e: "min (maxirqn st) (- 1) \<le> effective_maxirqn opts (maxirqn st)"
    by (rule effective_maxirqn_core)
  show "\<forall>i. 2 \<le> i \<and> i < 16 \<and> irqname st i \<noteq> [] \<longrightarrow>
               i \<in> set (decl_slots (addirqs opts) (irqname st)
                          (effective_maxirqn opts (maxirqn st)))
               \<and> i \<in> set (core_slots (irqname st))"
  proof (intro allI impI)
    fix i
    assume a: "2 \<le> i \<and> i < 16 \<and> irqname st i \<noteq> []"
    with inv have "int i \<le> maxirqn st + 16"
      by (simp add: names_below_max_def)
    with e a have "int i \<le> effective_maxirqn opts (maxirqn st) + 16"
      by linarith
    then have 1: "i \<in> set (decl_slots (addirqs opts) (irqname st)
        (effective_maxirqn opts (maxirqn st)))"
      using a unfolding decl_slots_def set_filter set_upt by simp
    have 2: "i \<in> set (core_slots (irqname st))"
      using a unfolding core_slots_def set_filter set_upt by simp
    show "i \<in> set (decl_slots (addirqs opts) (irqname st)
                          (effective_maxirqn opts (maxirqn st)))
               \<and> i \<in> set (core_slots (irqname st))"
      by (intro conjI) (rule 1, rule 2)
  qed
qed

theorem short_core_names_witness:
  "main zeroed example_world [''h2cstartup'', ''-s'', ''x.h''] =
     Inr \<lparr>exit_code = 0, stdout = [], stderr = [],
          outfile = Some (''startup_x.c'',
            heading ''startup_x.c'' ''x.h'' @
            ''    Standard short core exception names.\<newline>'' @
            ''*/\<newline>\<newline>'' @
            defhandler @
            weak_alias ''void NMI_Handler(void)'' @
            weak_alias ''void WWDG_IRQHandler(void)'' @
            weak_alias ''void PVD_IRQHandler(void)'' @
            vtstart @
            ''        CX( 2) = NMI_Handler,\<newline>'' @
            vtmid @
            ''        [ 0] = WWDG_IRQHandler,\<newline>'' @
            ''        [ 1] = PVD_IRQHandler\<newline>'' @
            vtend)\<rparr>"
proof -
  let ?argv = "[''h2cstartup'', ''-s'', ''x.h'']"
  have 1: "2 \<le> length ?argv" and 3: "2 < length ?argv" by simp_all
  have 4: "readable example_world (?argv ! 2) = Some example_header"
    by (simp add: example_world_def)
  have 6: "length (get_stripped_name (?argv ! 2)) \<le> 191"
    by (simp add: get_stripped_name_def strchr_def)
  have 7: "creatable example_world (output_name (?argv ! 2))"
    by (simp add: example_world_def)
  have 8: "stdexcnames \<lparr>addirqs = False, stdexcnames = True, nirqns = - 1\<rparr>" by simp
  show ?thesis
    unfolding short_core_names[OF 1 example_options_s 3 4 example_scan 6 7 8, THEN conjunct1]
    by (simp add: file_eval short_decl_def short_core_def short_name_def effective_maxirqn_def
        limit_maxirqn_def)
qed

section \<open>Determinism\<close>

lemma scan_line_indep: "scan_line id0 num0 ln st = scan_line id1 num1 ln st"
  by (simp add: scan_line_def sscanf_irq_def Let_def del: dropWhile_eq_Nil_conv
      split: option.split list.split prod.split)

lemma scan_loop_indep: "scan_loop ind k lns st = scan_loop ind' k' lns st"
proof (induction lns arbitrary: k k' st)
  case Nil
  show ?case by simp
next
  case (Cons ln lns)
  have "scan_line (irqid_at ind k) (irqnum_at ind k) ln st
      = scan_line (irqid_at ind' k') (irqnum_at ind' k') ln st"
    by (rule scan_line_indep)
  then show ?case
    using Cons.IH[of "Suc k" _ "Suc k'"] by (simp split: sum.splits prod.splits)
qed

lemma nvic_at_indep:
  "tab i \<noteq> [] \<or> addirqs_flag \<Longrightarrow>
     nvic_at addirqs_flag tab maxirqn1 s0 i = nvic_at addirqs_flag tab maxirqn1 s1 i"
  by (auto simp: nvic_at_def)

lemma nvic_table_indep:
  "map (\<lambda>i. nvic_at addirqs_flag tab maxirqn1 (s_at ind i) i)
     (nvic_slots addirqs_flag tab maxirqn1)
   = map (\<lambda>i. nvic_at addirqs_flag tab maxirqn1 (s_at ind' i) i)
       (nvic_slots addirqs_flag tab maxirqn1)"
  by (rule map_cong[OF refl]) (auto simp: nvic_slots_def intro: nvic_at_indep)

lemma generate_indep: "generate ind opts st ofname nm = generate ind' opts st ofname nm"
  unfolding generate_def Let_def
  by (subst nvic_table_indep[of _ _ _ ind ind']) (rule refl)

lemma write_output_indep:
  "write_output ind w opts in_name in_null st = write_output ind' w opts in_name in_null st"
  unfolding write_output_def Let_def
  by (subst generate_indep[of ind _ _ _ _ ind']) (rule refl)

text \<open>
  C8. The table the scanner builds is a function of the header's content, and the whole
  outcome of a run (whether it is defined, the exit status, both streams, the name and every
  byte of the file written) is a function of the arguments, the content of the input file
  and whether the output file can be created: neither depends on what the objects declared
  without an initial value (\<^verbatim>\<open>irqid\<close>, \<^verbatim>\<open>irqnum\<close>, \<^verbatim>\<open>s\<close>) hold when a loop body is entered. Two
  runs on the same inputs agree whatever these contents are in each.
\<close>

theorem run_deterministic:
  "scan_header ind content = scan_header ind' content \<and> main ind w argv = main ind' w argv"
proof
  show s: "scan_header ind content = scan_header ind' content" for content
    unfolding scan_header_def by (rule scan_loop_indep)
  show "main ind w argv = main ind' w argv"
    unfolding main_def Let_def
    using s write_output_indep[of ind w _ _ _ _ ind']
    by (simp split: flow.splits option.splits sum.splits prod.splits)
qed

end
